theory Spec2Isabelle
  imports Main "HOL-Library.Char_ord" "HOL-Library.List_Lexorder" "HOL-Library.Multiset"
begin

chapter \<open>The model\<close>

section \<open>Go strings\<close>

text \<open>
  A Go string is a sequence of bytes; \<^typ>\<open>string\<close> is a list of \<^typ>\<open>char\<close>, one per byte.
  Go compares strings with \<open><\<close> byte by byte, which is the lexicographic order on
  \<^typ>\<open>char list\<close> that the imported library theories install.
\<close>

definition HasPrefix :: "string \<Rightarrow> string \<Rightarrow> bool" where
  "HasPrefix s prefix = (take (length prefix) s = prefix)"

definition TrimPrefix :: "string \<Rightarrow> string \<Rightarrow> string" where
  "TrimPrefix s prefix = (if HasPrefix s prefix then drop (length prefix) s else s)"

text \<open>\<open>strings.Join(elems, sep)\<close>.\<close>

fun Join :: "string list \<Rightarrow> string \<Rightarrow> string" where
  "Join [] sep = []"
| "Join [x] sep = x"
| "Join (x # y # ys) sep = x @ sep @ Join (y # ys) sep"

text \<open>\<open>strings.Replace(s, old, new, 1)\<close>: only the first occurrence of \<open>old\<close> is replaced.\<close>

fun ReplaceFirst :: "string \<Rightarrow> string \<Rightarrow> string \<Rightarrow> string" where
  "ReplaceFirst [] old new = (if old = [] then new else [])"
| "ReplaceFirst (c # cs) old new =
     (if HasPrefix (c # cs) old then new @ drop (length old) (c # cs)
      else c # ReplaceFirst cs old new)"

text \<open>
  An ASCII-only case-insensitive comparison. \<open>strings.EqualFold\<close> itself (Unicode case
  folding) is a parameter of the functions that call it; this instance agrees with it on
  ASCII strings and is what the concrete examples use.
\<close>

definition asciiLower :: "char \<Rightarrow> char" where
  "asciiLower c =
     (let n = (of_char c :: nat) in if 65 \<le> n \<and> n \<le> 90 then char_of (n + 32) else c)"

definition asciiEqualFold :: "string \<Rightarrow> string \<Rightarrow> bool" where
  "asciiEqualFold s t = (map asciiLower s = map asciiLower t)"

section \<open>Data model\<close>

text \<open>The errors that the modelled functions return, one constructor per error site.\<close>

datatype error =
    StoreError string
  | ErrFindDatabase error
  | ErrNoDatabase int string
  | ErrNoDatabaseForEnvironment int string string
  | ErrMultipleDatabases int string string
  | ErrProvider string
  | ErrBadPattern
  | ErrUnexpectedRef string
  | ErrNotAssociated
  | ErrNotExactlyOneProject string
  | ErrOnlyDMLForYAML
  | ErrParse string
  | Wrap string error
  | ErrCreateIssue string
  | HTTPError nat string

record Environment =
  env_Name :: string

record Instance =
  EnvironmentID :: int
  Environment :: Environment

record Database =
  db_ID :: int
  db_Name :: string
  Instance :: Instance

section \<open>findProjectDatabases\<close>

text \<open>
  The loop over \<open>filteredDatabases\<close> that records each instance's environment ID in the
  set \<open>marked\<close>; \<open>True\<close> when the loop reaches a database whose environment ID is already
  marked (the source then returns the "multiple databases" error).
\<close>

fun markedLoop :: "int set \<Rightarrow> Database list \<Rightarrow> bool" where
  "markedLoop marked [] = False"
| "markedLoop marked (database # rest) =
     (if EnvironmentID (Instance database) \<in> marked then True
      else markedLoop (insert (EnvironmentID (Instance database)) marked) rest)"

text \<open>
  \<open>findProjectDatabases(ctx, projectID, dbName, envName)\<close>. The store's \<open>FindDatabase\<close>
  (given the project ID and the database name) and \<open>strings.EqualFold\<close> are parameters.
\<close>

definition findProjectDatabases ::
  "(string \<Rightarrow> string \<Rightarrow> bool) \<Rightarrow> (int \<Rightarrow> string \<Rightarrow> error + Database list) \<Rightarrow>
   int \<Rightarrow> string \<Rightarrow> string \<Rightarrow> error + Database list" where
  "findProjectDatabases EqualFold FindDatabase projectID dbName envName =
     (case FindDatabase projectID dbName of
        Inl err \<Rightarrow> Inl (ErrFindDatabase err)
      | Inr foundDatabases \<Rightarrow>
          if foundDatabases = [] then Inl (ErrNoDatabase projectID dbName)
          else
            let filteredDatabases =
                  (if envName \<noteq> []
                   then filter (\<lambda>database. EqualFold (env_Name (Environment (Instance database))) envName)
                          foundDatabases
                   else foundDatabases)
            in if envName \<noteq> [] \<and> filteredDatabases = []
               then Inl (ErrNoDatabaseForEnvironment projectID dbName envName)
               else if markedLoop {} filteredDatabases
               then Inl (ErrMultipleDatabases projectID dbName envName)
               else Inr filteredDatabases)"

text \<open>The candidates that survive the environment filter, as the source computes them.\<close>

definition environmentFiltered ::
  "(string \<Rightarrow> string \<Rightarrow> bool) \<Rightarrow> string \<Rightarrow> Database list \<Rightarrow> Database list" where
  "environmentFiltered EqualFold envName foundDatabases =
     (if envName \<noteq> []
      then filter (\<lambda>database. EqualFold (env_Name (Environment (Instance database))) envName)
             foundDatabases
      else foundDatabases)"

definition environmentIDs :: "Database list \<Rightarrow> int list" where
  "environmentIDs databases = map (\<lambda>database. EnvironmentID (Instance database)) databases"

subsection \<open>Example data\<close>

definition mkDatabase :: "int \<Rightarrow> string \<Rightarrow> int \<Rightarrow> string \<Rightarrow> Database" where
  "mkDatabase i n e en =
     \<lparr>db_ID = i, db_Name = n,
      Instance = \<lparr>EnvironmentID = e, Environment = \<lparr>env_Name = en\<rparr>\<rparr>\<rparr>"

definition shopStore :: "int \<Rightarrow> string \<Rightarrow> error + Database list" where
  "shopStore projectID dbName =
     (if projectID = 1 \<and> dbName = ''shop''
      then Inr [mkDatabase 101 ''shop'' 1 ''Dev'', mkDatabase 102 ''shop'' 2 ''Prod'']
      else if projectID = 1 \<and> dbName = ''twin''
      then Inr [mkDatabase 201 ''twin'' 1 ''Dev'', mkDatabase 202 ''twin'' 1 ''Dev'']
      else Inr [])"

section \<open>The webhook endpoints: dispatch on the event kind\<close>

text \<open>
  A handler returns either an error (\<open>echo.NewHTTPError(code, message)\<close>, which the
  framework renders as a response with that status code) or the response it wrote
  with \<open>c.String(code, text)\<close>.
\<close>

datatype response = String nat string

text \<open>
  The event-kind constants of the provider packages (\<open>gitlab.WebhookPush\<close>,
  \<open>github.WebhookPing\<close>, \<open>github.WebhookPush\<close>); their declarations are outside the
  sources at hand, the values are the providers' event names.
\<close>

definition gitlab_WebhookPush :: string where
  "gitlab_WebhookPush = ''push''"

definition github_WebhookPing :: string where
  "github_WebhookPing = ''ping''"

definition github_WebhookPush :: string where
  "github_WebhookPush = ''push''"

text \<open>The fields of the provider payloads that the handlers read before processing.\<close>

record gitlab_WebhookPushEvent =
  ObjectKind :: string
  gl_ProjectID :: int
  gl_Ref :: string

record github_WebhookPushEvent =
  gh_RepositoryFullName :: string
  gh_Ref :: string

text \<open>
  A request as the handlers see it: the result of \<open>io.ReadAll\<close> on the body, and the
  headers they read.
\<close>

record request =
  Body :: "error + string"
  X_Gitlab_Token :: string
  X_GitHub_Event :: string
  X_Hub_Signature_256 :: string

text \<open>
  \<open>POST /gitlab/:id\<close>. \<open>unmarshal\<close> is \<open>json.Unmarshal\<close> into the push event;
  \<open>processing\<close> stands for everything after the event-kind check (resolving the
  repositories, converting the event, \<open>processPushEvent\<close>, writing the response).
\<close>

definition gitlabHandler ::
  "(string \<Rightarrow> error + gitlab_WebhookPushEvent) \<Rightarrow>
   (request \<Rightarrow> gitlab_WebhookPushEvent \<Rightarrow> error + response) \<Rightarrow> request \<Rightarrow> error + response" where
  "gitlabHandler unmarshal processing c =
     (case Body c of
        Inl err \<Rightarrow> Inl (HTTPError 400 ''Failed to read webhook request'')
      | Inr body \<Rightarrow>
          (case unmarshal body of
             Inl err \<Rightarrow> Inl (HTTPError 400 ''Malformed push event'')
           | Inr pushEvent \<Rightarrow>
               if ObjectKind pushEvent \<noteq> gitlab_WebhookPush
               then Inl (HTTPError 400
                      (''Invalid webhook event type, got '' @ ObjectKind pushEvent @ '', want push''))
               else processing c pushEvent))"

text \<open>\<open>POST /github/:id\<close>, with the same parameters.\<close>

definition githubHandler ::
  "(string \<Rightarrow> error + github_WebhookPushEvent) \<Rightarrow>
   (request \<Rightarrow> string \<Rightarrow> github_WebhookPushEvent \<Rightarrow> error + response) \<Rightarrow> request \<Rightarrow> error + response" where
  "githubHandler unmarshal processing c =
     (let eventType = X_GitHub_Event c in
      if eventType = github_WebhookPing then Inr (String 200 ''OK'')
      else if eventType \<noteq> github_WebhookPush
      then Inl (HTTPError 400
             (''Invalid webhook event type, got '' @ eventType @ '', want '' @ github_WebhookPush))
      else
        (case Body c of
           Inl err \<Rightarrow> Inl (HTTPError 400 ''Failed to read webhook request'')
         | Inr body \<Rightarrow>
             (case unmarshal body of
                Inl err \<Rightarrow> Inl (HTTPError 400 ''Malformed push event'')
              | Inr pushEvent \<Rightarrow> processing c body pushEvent)))"

text \<open>The claim's reading of a handler's outcome: HTTP 200, as opposed to an error.\<close>

definition respondsOK :: "error + response \<Rightarrow> bool" where
  "respondsOK r = (case r of Inr (String code text) \<Rightarrow> code = 200 | Inl err \<Rightarrow> False)"

subsection \<open>Example requests\<close>

definition tagPushRequest :: request where
  "tagPushRequest =
     \<lparr>Body = Inr ''tag_push'', X_Gitlab_Token = ''secret'', X_GitHub_Event = ''pull_request'',
      X_Hub_Signature_256 = ''''\<rparr>"

definition kindOnly :: "string \<Rightarrow> error + gitlab_WebhookPushEvent" where
  "kindOnly body = Inr \<lparr>ObjectKind = body, gl_ProjectID = 7, gl_Ref = ''refs/heads/main''\<rparr>"

definition anyGitHubEvent :: "string \<Rightarrow> error + github_WebhookPushEvent" where
  "anyGitHubEvent body = Inr \<lparr>gh_RepositoryFullName = ''octo/shop'', gh_Ref = ''refs/heads/main''\<rparr>"

text \<open>A processing stage that would create an issue and answer 200 for whatever it is given.\<close>

definition gitlabCreates :: "request \<Rightarrow> gitlab_WebhookPushEvent \<Rightarrow> error + response" where
  "gitlabCreates c pushEvent = Inr (String 200 ''Created issue'')"

definition githubCreates :: "request \<Rightarrow> string \<Rightarrow> github_WebhookPushEvent \<Rightarrow> error + response" where
  "githubCreates c body pushEvent = Inr (String 200 ''Created issue'')"

section \<open>Formatting integers and replacing substrings\<close>

text \<open>The decimal digits that \<open>%d\<close> prints.\<close>

fun natDigits :: "nat \<Rightarrow> string" where
  "natDigits n =
     (if n < 10 then [char_of (48 + n)]
      else natDigits (n div 10) @ [char_of (48 + n mod 10)])"

declare natDigits.simps [simp del]

definition Itoa :: "int \<Rightarrow> string" where
  "Itoa i = (if i < 0 then CHR ''-'' # natDigits (nat (- i)) else natDigits (nat i))"

text \<open>
  \<open>strings.ReplaceAll(s, old, new)\<close> on bytes. With an empty \<open>old\<close>, Go inserts \<open>new\<close>
  before every character and at the end.
\<close>

function ReplaceAll :: "string \<Rightarrow> string \<Rightarrow> string \<Rightarrow> string" where
  "ReplaceAll s old new =
     (if old = [] then new @ concat (map (\<lambda>c. c # new) s)
      else if s = [] then []
      else if HasPrefix s old then new @ ReplaceAll (drop (length old) s) old new
      else hd s # ReplaceAll (tl s) old new)"
  by pat_completeness auto
termination
  by (relation "measure (\<lambda>(s, old, new). length s)") auto

declare ReplaceAll.simps [simp del]

definition newline :: string where
  "newline = [CHR 0x0A]"

definition dquote :: string where
  "dquote = [CHR 0x22]"

section \<open>SQL advice and the two report formatters\<close>

text \<open>
  \<open>advisor.Status\<close> is a string type with the three values below; an advice carries a
  status, a numeric code (0 is "ok"), a title, a content and a line.
\<close>

datatype Status = Success | Warn | Error

record Advice =
  Status :: Status
  Code :: int
  Title :: string
  Content :: string
  Line :: int

record VCSSQLReviewResult =
  res_Status :: Status
  res_Content :: "string list"

definition sqlReviewDocs :: string where
  "sqlReviewDocs = ''https://www.bytebase.com/docs/reference/error-code/advisor''"

text \<open>
  The advice-by-file map \<open>map[string][]advisor.Advice\<close> is the list of its entries, in
  whatever order Go's \<open>range\<close> happens to enumerate them; a map has each key once.
  Reading a key that is absent gives the nil slice.
\<close>

type_synonym adviceMap = "(string \<times> Advice list) list"

definition lookupAdvice :: "adviceMap \<Rightarrow> string \<Rightarrow> Advice list" where
  "lookupAdvice adviceMap filePath =
     (case map_of adviceMap filePath of None \<Rightarrow> [] | Some adviceList \<Rightarrow> adviceList)"

text \<open>\<open>line := advice.Line; if line <= 0 { line = 1 }\<close>.\<close>

definition clampLine :: "int \<Rightarrow> int" where
  "clampLine line = (if line \<le> 0 then 1 else line)"

text \<open>The \<open>testcase\<close> element that the GitLab formatter prints for one advice.\<close>

definition gitlabTestcase :: "string \<Rightarrow> Advice \<Rightarrow> string" where
  "gitlabTestcase filePath advice =
     (let line = clampLine (Line advice);
          content = ''Error: '' @ Content advice @ ''.'' @ newline @ ''You can check the docs at ''
                    @ sqlReviewDocs @ ''#'' @ Itoa (Code advice)
      in ''<testcase name='' @ dquote @ Title advice @ dquote @ '' classname='' @ dquote @ filePath
         @ dquote @ '' file='' @ dquote @ filePath @ ''#L'' @ Itoa line @ dquote @ ''>'' @ newline
         @ ''<failure>'' @ newline @ content @ newline @ ''</failure>'' @ newline @ ''</testcase>'')"

text \<open>
  The inner loop of \<open>convertSQLAdviceToGitLabCIResult\<close> over one file's advice list; its
  state is the aggregate \<open>status\<close> and the file's \<open>testcaseList\<close>.
\<close>

fun gitlabAdviceLoop :: "string \<Rightarrow> Advice list \<Rightarrow> Status \<Rightarrow> string list \<Rightarrow> Status \<times> string list" where
  "gitlabAdviceLoop filePath [] status testcaseList = (status, testcaseList)"
| "gitlabAdviceLoop filePath (advice # rest) status testcaseList =
     (if Code advice = 0 then gitlabAdviceLoop filePath rest status testcaseList
      else
        let status' =
              (if Status advice = Error then Status advice
               else if Status advice = Warn \<and> status \<noteq> Error then Status advice
               else status)
        in gitlabAdviceLoop filePath rest status' (testcaseList @ [gitlabTestcase filePath advice]))"

definition gitlabTestsuite :: "string \<Rightarrow> string list \<Rightarrow> string" where
  "gitlabTestsuite filePath testcaseList =
     ''<testsuite name='' @ dquote @ filePath @ dquote @ ''>'' @ newline
     @ Join testcaseList newline @ newline @ ''</testsuite>''"

text \<open>The outer loop over the sorted \<open>fileList\<close>; its state is \<open>status\<close> and \<open>testsuiteList\<close>.\<close>

fun gitlabFileLoop :: "adviceMap \<Rightarrow> string list \<Rightarrow> Status \<Rightarrow> string list \<Rightarrow> Status \<times> string list" where
  "gitlabFileLoop adviceMap [] status testsuiteList = (status, testsuiteList)"
| "gitlabFileLoop adviceMap (filePath # rest) status testsuiteList =
     (case gitlabAdviceLoop filePath (lookupAdvice adviceMap filePath) status [] of
        (status', testcaseList) \<Rightarrow>
          gitlabFileLoop adviceMap rest status'
            (if length testcaseList > 0
             then testsuiteList @ [gitlabTestsuite filePath testcaseList]
             else testsuiteList))"

definition convertSQLAdviceToGitLabCIResult :: "adviceMap \<Rightarrow> VCSSQLReviewResult" where
  "convertSQLAdviceToGitLabCIResult adviceMap =
     (let fileList = sort (map fst adviceMap) in
      case gitlabFileLoop adviceMap fileList Success [] of
        (status, testsuiteList) \<Rightarrow>
          \<lparr>res_Status = status,
           res_Content =
             [''<?xml version='' @ dquote @ ''1.0'' @ dquote @ '' encoding='' @ dquote @ ''UTF-8''
              @ dquote @ ''?>'' @ newline @ ''<testsuites name='' @ dquote @ ''SQL Review'' @ dquote
              @ ''>'' @ newline @ Join testsuiteList newline @ newline @ ''</testsuites>'']\<rparr>)"

text \<open>The workflow-command line that the GitHub formatter prints for one advice.\<close>

definition githubMessage :: "string \<Rightarrow> Advice \<Rightarrow> string" where
  "githubMessage filePath advice =
     (let line = clampLine (Line advice);
          prefix = (if Status advice = Error then ''error'' else ''warning'');
          msg = ''::'' @ prefix @ '' file='' @ filePath @ '',line='' @ Itoa line
                @ '',col=1,endColumn=2,title='' @ Title advice @ '' ('' @ Itoa (Code advice) @ '')::''
                @ Content advice @ newline @ ''Doc: '' @ sqlReviewDocs @ ''#'' @ Itoa (Code advice)
      in ReplaceAll msg newline ''%0A'')"

text \<open>The inner loop of \<open>convertSQLAdiceToGitHubActionResult\<close>.\<close>

fun githubAdviceLoop :: "string \<Rightarrow> Advice list \<Rightarrow> Status \<Rightarrow> string list \<Rightarrow> Status \<times> string list" where
  "githubAdviceLoop filePath [] status messageList = (status, messageList)"
| "githubAdviceLoop filePath (advice # rest) status messageList =
     (if Code advice = 0 \<or> Status advice = Success
      then githubAdviceLoop filePath rest status messageList
      else
        let status' =
              (if Status advice = Error then Status advice
               else if status \<noteq> Error then Status advice
               else status)
        in githubAdviceLoop filePath rest status' (messageList @ [githubMessage filePath advice]))"

fun githubFileLoop :: "adviceMap \<Rightarrow> string list \<Rightarrow> Status \<Rightarrow> string list \<Rightarrow> Status \<times> string list" where
  "githubFileLoop adviceMap [] status messageList = (status, messageList)"
| "githubFileLoop adviceMap (filePath # rest) status messageList =
     (case githubAdviceLoop filePath (lookupAdvice adviceMap filePath) status messageList of
        (status', messageList') \<Rightarrow> githubFileLoop adviceMap rest status' messageList')"

definition convertSQLAdiceToGitHubActionResult :: "adviceMap \<Rightarrow> VCSSQLReviewResult" where
  "convertSQLAdiceToGitHubActionResult adviceMap =
     (let fileList = sort (map fst adviceMap) in
      case githubFileLoop adviceMap fileList Success [] of
        (status, messageList) \<Rightarrow> \<lparr>res_Status = status, res_Content = messageList\<rparr>)"

subsection \<open>What the formatters are measured against\<close>

text \<open>The most severe of the statuses in a list, \<open>Success\<close> when there is none.\<close>

definition mostSevere :: "Status list \<Rightarrow> Status" where
  "mostSevere statuses =
     (if Error \<in> set statuses then Error else if Warn \<in> set statuses then Warn else Success)"

text \<open>All advices of the map, and those among them that the formatters do not skip.\<close>

definition allAdvices :: "adviceMap \<Rightarrow> Advice list" where
  "allAdvices adviceMap = concat (map snd adviceMap)"

definition reported :: "Advice list \<Rightarrow> Advice list" where
  "reported adviceList = filter (\<lambda>advice. Code advice \<noteq> 0) adviceList"

text \<open>The output of one file: its test suite if it has a test case, and its messages.\<close>

definition gitlabFileOutput :: "adviceMap \<Rightarrow> string \<Rightarrow> string list" where
  "gitlabFileOutput adviceMap filePath =
     (let testcaseList = map (gitlabTestcase filePath) (reported (lookupAdvice adviceMap filePath))
      in if testcaseList = [] then [] else [gitlabTestsuite filePath testcaseList])"

definition githubFileOutput :: "adviceMap \<Rightarrow> string \<Rightarrow> string list" where
  "githubFileOutput adviceMap filePath =
     map (githubMessage filePath)
       (filter (\<lambda>advice. Status advice \<noteq> Success) (reported (lookupAdvice adviceMap filePath)))"

definition gitlabDocument :: "string list \<Rightarrow> string" where
  "gitlabDocument testsuiteList =
     ''<?xml version='' @ dquote @ ''1.0'' @ dquote @ '' encoding='' @ dquote @ ''UTF-8''
     @ dquote @ ''?>'' @ newline @ ''<testsuites name='' @ dquote @ ''SQL Review'' @ dquote
     @ ''>'' @ newline @ Join testsuiteList newline @ newline @ ''</testsuites>''"

subsection \<open>Example advice\<close>

definition okCodeError :: Advice where
  "okCodeError = \<lparr>Status = Error, Code = 0, Title = ''Syntax error'', Content = ''bad'', Line = 3\<rparr>"

definition namingWarn :: Advice where
  "namingWarn = \<lparr>Status = Warn, Code = 301, Title = ''naming.table'', Content = ''bad name'', Line = 0\<rparr>"

definition dropError :: Advice where
  "dropError = \<lparr>Status = Error, Code = 603, Title = ''table.drop'', Content = ''drop'', Line = 7\<rparr>"

definition exampleAdviceMap :: adviceMap where
  "exampleAdviceMap = [(''b.sql'', [dropError]), (''a.sql'', [namingWarn, okCodeError])]"

section \<open>Projects, repository links and changed files\<close>

datatype TenantMode = TenantModeDisabled | TenantModeTenant

datatype SchemaChangeType = ProjectSchemaChangeTypeDDL | ProjectSchemaChangeTypeSDL

record Project =
  proj_Name :: string
  TenantMode :: TenantMode
  DBNameTemplate :: string
  SchemaChangeType :: SchemaChangeType

record Repository =
  repo_ID :: int
  ProjectID :: int
  Project :: Project
  BaseDirectory :: string
  FilePathTemplate :: string
  SchemaPathTemplate :: string

text \<open>
  The migration kinds of \<open>db.MigrationType\<close> that the handlers name (its declaration is
  outside the sources at hand), and the parsed \<open>db.MigrationInfo\<close> of a file.
\<close>

datatype MigrationType = Baseline | Migrate | MigrateSDL | Data

record MigrationInfo =
  mi_Version :: string
  mi_Database :: string
  mi_Environment :: string
  mi_Type :: MigrationType

datatype FileItemType = FileItemTypeAdded | FileItemTypeModified

record DistinctFileItem =
  FileName :: string
  CommitID :: string
  ItemType :: FileItemType
  IsYAML :: bool

datatype fileType = unknownFileType | migrationFileType | schemaFileType

record fileInfo =
  item :: DistinctFileItem
  migrationInfo :: MigrationInfo
  fType :: fileType
  repository :: Repository

section \<open>path.Join\<close>

text \<open>
  \<open>path.Clean\<close>, by the rules of its documentation: repeated slashes collapse, \<open>.\<close>
  elements vanish, an inner \<open>..\<close> element removes the element before it, \<open>..\<close> elements
  at the start of a rooted path vanish, and the empty result is \<open>.\<close>.
\<close>

fun splitSlash :: "string \<Rightarrow> string list" where
  "splitSlash [] = [[]]"
| "splitSlash (c # cs) =
     (if c = CHR ''/'' then [] # splitSlash cs
      else (case splitSlash cs of [] \<Rightarrow> [[c]] | x # xs \<Rightarrow> (c # x) # xs))"

fun cleanElements :: "bool \<Rightarrow> string list \<Rightarrow> string list \<Rightarrow> string list" where
  "cleanElements rooted out [] = out"
| "cleanElements rooted out (e # es) =
     (if e = [] \<or> e = ''.'' then cleanElements rooted out es
      else if e = ''..'' then
        (if out \<noteq> [] \<and> last out \<noteq> ''..'' then cleanElements rooted (butlast out) es
         else if rooted then cleanElements rooted out es
         else cleanElements rooted (out @ [e]) es)
      else cleanElements rooted (out @ [e]) es)"

definition Clean :: "string \<Rightarrow> string" where
  "Clean path =
     (if path = [] then ''.''
      else
        let rooted = (hd path = CHR ''/'');
            out = (if rooted then ''/'' else []) @ Join (cleanElements rooted [] (splitSlash path)) ''/''
        in if out = [] then ''.'' else out)"

text \<open>\<open>path.Join(elem...)\<close>: empty elements are ignored, the rest is joined and cleaned.\<close>

definition path_Join :: "string list \<Rightarrow> string" where
  "path_Join elem =
     (let nonEmpty = filter (\<lambda>e. e \<noteq> []) elem
      in if nonEmpty = [] then [] else Clean (Join nonEmpty ''/''))"

section \<open>getFileInfo and groupFileInfoByRepo\<close>

text \<open>
  The template and the "allow omit database name" flag that \<open>getFileInfo\<close> computes for one
  candidate repo before it calls \<open>db.ParseMigrationInfo\<close>.
\<close>

definition templateAndOmit :: "DistinctFileItem \<Rightarrow> Repository \<Rightarrow> string \<times> bool" where
  "templateAndOmit fileItem repo =
     (let filePathTemplate = path_Join [BaseDirectory repo, FilePathTemplate repo] in
      if TenantMode (Project repo) = TenantModeTenant then
        (if IsYAML fileItem then (ReplaceFirst filePathTemplate ''.sql'' ''.yml'', True)
         else if DBNameTemplate (Project repo) = [] then (filePathTemplate, True)
         else (filePathTemplate, False))
      else (filePathTemplate, False))"

text \<open>
  \<open>db.ParseMigrationInfo(filePath, filePathTemplate, allowOmitDatabaseName)\<close> and
  \<open>db.ParseSchemaFileInfo(baseDirectory, schemaPathTemplate, file)\<close> are outside the
  sources at hand; they are parameters. Each returns an error, or no match (the nil
  pointer), or the parsed information.
\<close>

type_synonym ParseMigrationInfo = "string \<Rightarrow> string \<Rightarrow> bool \<Rightarrow> error + MigrationInfo option"

type_synonym ParseSchemaFileInfo = "string \<Rightarrow> string \<Rightarrow> string \<Rightarrow> error + MigrationInfo option"

text \<open>
  The loop of \<open>getFileInfo\<close> over the candidate repositories. Its state is the last parsed
  \<open>info\<close> (nil at first), the last \<open>ft\<close> and \<open>fileRepositoryList\<close>; the result
  is an error when the loop returns early.
\<close>

fun getFileInfoLoop ::
  "ParseMigrationInfo \<Rightarrow> ParseSchemaFileInfo \<Rightarrow> DistinctFileItem \<Rightarrow> Repository list \<Rightarrow>
   MigrationInfo option \<times> fileType \<times> Repository list \<Rightarrow>
   error + MigrationInfo option \<times> fileType \<times> Repository list" where
  "getFileInfoLoop parseMI parseSI fileItem [] state = Inr state"
| "getFileInfoLoop parseMI parseSI fileItem (repo # rest) (info, ft, fileRepositoryList) =
     (if \<not> HasPrefix (FileName fileItem) (BaseDirectory repo)
      then getFileInfoLoop parseMI parseSI fileItem rest (info, ft, fileRepositoryList)
      else
        case templateAndOmit fileItem repo of
          (filePathTemplate, allowOmitDatabaseName) \<Rightarrow>
            (case parseMI (FileName fileItem) filePathTemplate allowOmitDatabaseName of
               Inl err \<Rightarrow>
                 getFileInfoLoop parseMI parseSI fileItem rest (info, ft, fileRepositoryList)
             | Inr (Some mi) \<Rightarrow>
                 if IsYAML fileItem \<and> mi_Type mi \<noteq> Data then Inl ErrOnlyDMLForYAML
                 else getFileInfoLoop parseMI parseSI fileItem rest
                        (Some mi, migrationFileType, fileRepositoryList @ [repo])
             | Inr None \<Rightarrow>
                 (case parseSI (BaseDirectory repo) (SchemaPathTemplate repo)
                         (FileName fileItem) of
                    Inl err \<Rightarrow>
                      getFileInfoLoop parseMI parseSI fileItem rest
                        (info, ft, fileRepositoryList)
                  | Inr (Some si) \<Rightarrow>
                      getFileInfoLoop parseMI parseSI fileItem rest
                        (Some si, schemaFileType, fileRepositoryList @ [repo])
                  | Inr None \<Rightarrow>
                      getFileInfoLoop parseMI parseSI fileItem rest
                        (info, ft, fileRepositoryList))))"

text \<open>
  \<open>getFileInfo\<close>. With exactly one matched repo the loop has set \<open>info\<close>
  (lemma \<open>getFileInfoLoop_sets_info\<close> below), so the branch for a nil pointer is never taken.
\<close>

definition getFileInfo ::
  "ParseMigrationInfo \<Rightarrow> ParseSchemaFileInfo \<Rightarrow> DistinctFileItem \<Rightarrow> Repository list \<Rightarrow>
   error + MigrationInfo \<times> fileType \<times> Repository" where
  "getFileInfo parseMI parseSI fileItem repositoryList =
     (case getFileInfoLoop parseMI parseSI fileItem repositoryList (None, unknownFileType, []) of
        Inl err \<Rightarrow> Inl err
      | Inr (info, ft, fileRepositoryList) \<Rightarrow>
          (case fileRepositoryList of
             [] \<Rightarrow> Inl ErrNotAssociated
           | [repo] \<Rightarrow>
               (case info of
                  Some mi \<Rightarrow> Inr (mi, ft, repo)
                | None \<Rightarrow> Inl ErrNotAssociated)
           | _ \<Rightarrow>
               Inl (ErrNotExactlyOneProject
                      (Join (map (\<lambda>repo. proj_Name (Project repo)) fileRepositoryList)
                         '', ''))))"

text \<open>
  A Go map whose values are slices, as the list of its entries; \<open>m[k] = append(m[k], v)\<close>
  adds to the entry of \<open>k\<close> and creates it when the key is new.
\<close>

fun mapAppend :: "'k \<Rightarrow> 'v \<Rightarrow> ('k \<times> 'v list) list \<Rightarrow> ('k \<times> 'v list) list" where
  "mapAppend k v [] = [(k, [v])]"
| "mapAppend k v ((k', vs) # rest) =
     (if k = k' then (k', vs @ [v]) # rest else (k', vs) # mapAppend k v rest)"

text \<open>
  The loop of \<open>groupFileInfoByRepo\<close> over the changed files: a file whose \<open>getFileInfo\<close>
  fails is logged and skipped (\<open>continue\<close>).
\<close>

fun groupFileInfoByRepoLoop ::
  "ParseMigrationInfo \<Rightarrow> ParseSchemaFileInfo \<Rightarrow> DistinctFileItem list \<Rightarrow> Repository list \<Rightarrow>
   (int \<times> fileInfo list) list \<Rightarrow> (int \<times> fileInfo list) list" where
  "groupFileInfoByRepoLoop parseMI parseSI [] repositoryList repoID2FileItemList = repoID2FileItemList"
| "groupFileInfoByRepoLoop parseMI parseSI (fileItem # rest) repositoryList repoID2FileItemList =
     (case getFileInfo parseMI parseSI fileItem repositoryList of
        Inl err \<Rightarrow> groupFileInfoByRepoLoop parseMI parseSI rest repositoryList repoID2FileItemList
      | Inr (mi, ft, repo) \<Rightarrow>
          groupFileInfoByRepoLoop parseMI parseSI rest repositoryList
            (mapAppend (repo_ID repo)
               \<lparr>item = fileItem, migrationInfo = mi, fType = ft, repository = repo\<rparr>
               repoID2FileItemList))"

definition groupFileInfoByRepo ::
  "ParseMigrationInfo \<Rightarrow> ParseSchemaFileInfo \<Rightarrow> DistinctFileItem list \<Rightarrow> Repository list \<Rightarrow>
   (int \<times> fileInfo list) list" where
  "groupFileInfoByRepo parseMI parseSI distinctFileList repositoryList =
     groupFileInfoByRepoLoop parseMI parseSI distinctFileList repositoryList []"

subsection \<open>Which repositories a file matches\<close>

text \<open>
  A repository link matches a file when the loop body appends it to \<open>fileRepositoryList\<close>:
  the file lies under its base directory and parses either as a migration file or, failing
  that without an error, as a schema file.
\<close>

definition matchesRepository ::
  "ParseMigrationInfo \<Rightarrow> ParseSchemaFileInfo \<Rightarrow> DistinctFileItem \<Rightarrow> Repository \<Rightarrow> bool" where
  "matchesRepository parseMI parseSI fileItem repo =
     (HasPrefix (FileName fileItem) (BaseDirectory repo) \<and>
      (case templateAndOmit fileItem repo of
         (filePathTemplate, allowOmitDatabaseName) \<Rightarrow>
           (case parseMI (FileName fileItem) filePathTemplate allowOmitDatabaseName of
              Inl err \<Rightarrow> False
            | Inr (Some mi) \<Rightarrow> True
            | Inr None \<Rightarrow>
                (case parseSI (BaseDirectory repo) (SchemaPathTemplate repo)
                        (FileName fileItem) of
                   Inr (Some si) \<Rightarrow> True
                 | _ \<Rightarrow> False))))"

text \<open>The early return: a YAML file that some candidate parses as a non-DML migration.\<close>

definition yamlNotDML ::
  "ParseMigrationInfo \<Rightarrow> DistinctFileItem \<Rightarrow> Repository \<Rightarrow> bool" where
  "yamlNotDML parseMI fileItem repo =
     (HasPrefix (FileName fileItem) (BaseDirectory repo) \<and>
      (case templateAndOmit fileItem repo of
         (filePathTemplate, allowOmitDatabaseName) \<Rightarrow>
           (case parseMI (FileName fileItem) filePathTemplate allowOmitDatabaseName of
              Inr (Some mi) \<Rightarrow> IsYAML fileItem \<and> mi_Type mi \<noteq> Data
            | _ \<Rightarrow> False)))"

definition matchedRepositories ::
  "ParseMigrationInfo \<Rightarrow> ParseSchemaFileInfo \<Rightarrow> DistinctFileItem \<Rightarrow> Repository list \<Rightarrow> Repository list" where
  "matchedRepositories parseMI parseSI fileItem repositoryList =
     filter (matchesRepository parseMI parseSI fileItem) repositoryList"

subsection \<open>Example repository links and files\<close>

text \<open>
  Stand-ins for the two parsers in the examples: a file matches a template when it starts
  with the template's text up to the first placeholder; no file is a schema file.
\<close>

definition exampleParseMigrationInfo :: ParseMigrationInfo where
  "exampleParseMigrationInfo filePath filePathTemplate allowOmitDatabaseName =
     (if HasPrefix filePath (takeWhile (\<lambda>c. c \<noteq> CHR ''{'') filePathTemplate)
      then Inr (Some \<lparr>mi_Version = ''v1'', mi_Database = ''shop'', mi_Environment = [],
                       mi_Type = Migrate\<rparr>)
      else Inr None)"

definition noSchemaFile :: ParseSchemaFileInfo where
  "noSchemaFile baseDirectory schemaPathTemplate file = Inr None"

definition alphaRepo :: Repository where
  "alphaRepo =
     \<lparr>repo_ID = 1, ProjectID = 11,
      Project = \<lparr>proj_Name = ''alpha'', TenantMode = TenantModeDisabled, DBNameTemplate = [],
                 SchemaChangeType = ProjectSchemaChangeTypeDDL\<rparr>,
      BaseDirectory = ''db'', FilePathTemplate = ''{{DB_NAME}}__{{VERSION}}.sql'',
      SchemaPathTemplate = []\<rparr>"

definition betaRepo :: Repository where
  "betaRepo =
     \<lparr>repo_ID = 2, ProjectID = 12,
      Project = \<lparr>proj_Name = ''beta'', TenantMode = TenantModeDisabled, DBNameTemplate = [],
                 SchemaChangeType = ProjectSchemaChangeTypeDDL\<rparr>,
      BaseDirectory = ''db/shop'', FilePathTemplate = ''{{DB_NAME}}__{{VERSION}}.sql'',
      SchemaPathTemplate = []\<rparr>"

definition addedFile :: "string \<Rightarrow> DistinctFileItem" where
  "addedFile name = \<lparr>FileName = name, CommitID = ''c1'', ItemType = FileItemTypeAdded, IsYAML = False\<rparr>"

text \<open>A tenant project whose base directory contains the text \<open>.sql\<close>, and a YAML file in it.\<close>

definition tenantRepo :: Repository where
  "tenantRepo =
     \<lparr>repo_ID = 3, ProjectID = 13,
      Project = \<lparr>proj_Name = ''tenants'', TenantMode = TenantModeTenant, DBNameTemplate = [],
                 SchemaChangeType = ProjectSchemaChangeTypeDDL\<rparr>,
      BaseDirectory = ''bytebase.sql'', FilePathTemplate = ''{{VERSION}}__{{DESCRIPTION}}.sql'',
      SchemaPathTemplate = []\<rparr>"

definition yamlFile :: DistinctFileItem where
  "yamlFile =
     \<lparr>FileName = ''bytebase.sql/v1__init.yml'', CommitID = ''c1'', ItemType = FileItemTypeAdded,
      IsYAML = True\<rparr>"

section \<open>From classified files to issues\<close>

record MigrationDetail =
  md_MigrationType :: MigrationType
  md_DatabaseID :: int
  md_DatabaseName :: string
  md_Statement :: string
  md_SchemaVersion :: string

datatype IssueType = IssueDatabaseSchemaUpdate | IssueDatabaseDataUpdate

text \<open>
  The fields of \<open>api.IssueCreate\<close> that depend on the files; \<open>ic_DetailList\<close> is the detail
  list of the marshalled create context.
\<close>

record IssueCreate =
  ic_CreatorID :: int
  ic_ProjectID :: int
  ic_Name :: string
  ic_Type :: IssueType
  ic_Description :: string
  ic_DetailList :: "MigrationDetail list"

text \<open>
  The two kinds of project activity: the warning for an ignored file (project, file,
  error), and the record of a created issue (project, issue ID, issue name).
\<close>

datatype ActivityCreate =
    IgnoredFileActivity int string error
  | CreatedIssueActivity int int string

record MigrationFileYAML =
  yaml_Databases :: "string list"
  yaml_Statement :: string

text \<open>
  The collaborators of the orchestrator, each a function of its arguments: the licence
  check, reading a file of the push event from the provider, the store's database
  finder, \<open>strings.EqualFold\<close>, \<open>yaml.Unmarshal\<close>, the update of pending tasks from a
  modified file, the issue engine's \<open>createIssue\<close> (the new issue's ID, or an error) and
  the activity manager.
\<close>

record World =
  w_MultiTenancyEnabled :: bool
  w_readFileContent :: "string \<Rightarrow> error + string"
  w_FindDatabase :: "int \<Rightarrow> string \<Rightarrow> error + Database list"
  w_EqualFold :: "string \<Rightarrow> string \<Rightarrow> bool"
  w_yamlUnmarshal :: "string \<Rightarrow> error + MigrationFileYAML"
  w_tryUpdateTasksFromModifiedFile :: "Database list \<Rightarrow> string \<Rightarrow> string \<Rightarrow> string \<Rightarrow> error option"
  w_createIssue :: "IssueCreate \<Rightarrow> error + int"
  w_CreateActivity :: "ActivityCreate \<Rightarrow> error option"

definition getIgnoredFileActivityCreate :: "int \<Rightarrow> string \<Rightarrow> error \<Rightarrow> ActivityCreate" where
  "getIgnoredFileActivityCreate projectID file err = IgnoredFileActivity projectID file err"

definition prepareIssueFromSDLFile ::
  "World \<Rightarrow> Repository \<Rightarrow> MigrationInfo \<Rightarrow> string \<Rightarrow> MigrationDetail list \<times> ActivityCreate list" where
  "prepareIssueFromSDLFile w repo schemaInfo file =
     (let dbName = mi_Database schemaInfo in
      if dbName = [] then ([], [])
      else
        case w_readFileContent w file of
          Inl err \<Rightarrow>
            ([], [getIgnoredFileActivityCreate (ProjectID repo) file
                    (Wrap ''Failed to read file content'' err)])
        | Inr sdl \<Rightarrow>
            if TenantMode (Project repo) = TenantModeTenant
            then ([\<lparr>md_MigrationType = MigrateSDL, md_DatabaseID = 0, md_DatabaseName = dbName,
                     md_Statement = sdl, md_SchemaVersion = []\<rparr>], [])
            else
              (case findProjectDatabases (w_EqualFold w) (w_FindDatabase w) (ProjectID repo) dbName
                      (mi_Environment schemaInfo) of
                 Inl err \<Rightarrow>
                   ([], [getIgnoredFileActivityCreate (ProjectID repo) file
                           (Wrap ''Failed to find project databases'' err)])
               | Inr databases \<Rightarrow>
                   (map (\<lambda>database.
                           \<lparr>md_MigrationType = MigrateSDL, md_DatabaseID = db_ID database,
                            md_DatabaseName = [], md_Statement = sdl, md_SchemaVersion = []\<rparr>)
                      databases, [])))"

text \<open>
  The loop of \<open>prepareIssueFromFile\<close> over the databases named in a YAML file: the first
  database that cannot be resolved makes the whole file an ignored file.
\<close>

fun yamlDatabasesLoop ::
  "World \<Rightarrow> Repository \<Rightarrow> fileInfo \<Rightarrow> string \<Rightarrow> string list \<Rightarrow> MigrationDetail list \<Rightarrow>
   MigrationDetail list \<times> ActivityCreate list" where
  "yamlDatabasesLoop w repo fi statement [] migrationDetailList = (migrationDetailList, [])"
| "yamlDatabasesLoop w repo fi statement (name # rest) migrationDetailList =
     (case findProjectDatabases (w_EqualFold w) (w_FindDatabase w) (ProjectID repo) name [] of
        Inl err \<Rightarrow>
          ([], [getIgnoredFileActivityCreate (ProjectID repo) (FileName (item fi))
                  (Wrap (''Failed to find project database '' @ name) err)])
      | Inr dbList \<Rightarrow>
          yamlDatabasesLoop w repo fi statement rest
            (migrationDetailList @
             map (\<lambda>database.
                    \<lparr>md_MigrationType = mi_Type (migrationInfo fi), md_DatabaseID = db_ID database,
                     md_DatabaseName = [], md_Statement = statement,
                     md_SchemaVersion = mi_Version (migrationInfo fi)\<rparr>)
               dbList))"

definition prepareIssueFromFile ::
  "World \<Rightarrow> Repository \<Rightarrow> fileInfo \<Rightarrow> MigrationDetail list \<times> ActivityCreate list" where
  "prepareIssueFromFile w repo fi =
     (case w_readFileContent w (FileName (item fi)) of
        Inl err \<Rightarrow>
          ([], [getIgnoredFileActivityCreate (ProjectID repo) (FileName (item fi))
                  (Wrap ''Failed to read file content'' err)])
      | Inr content \<Rightarrow>
          if TenantMode (Project repo) = TenantModeTenant then
            (if \<not> IsYAML (item fi)
             then ([\<lparr>md_MigrationType = mi_Type (migrationInfo fi), md_DatabaseID = 0,
                      md_DatabaseName = mi_Database (migrationInfo fi), md_Statement = content,
                      md_SchemaVersion = mi_Version (migrationInfo fi)\<rparr>], [])
             else
               (case w_yamlUnmarshal w content of
                  Inl err \<Rightarrow>
                    ([], [getIgnoredFileActivityCreate (ProjectID repo) (FileName (item fi))
                            (Wrap ''Failed to parse file content as YAML'' err)])
                | Inr migrationFile \<Rightarrow>
                    yamlDatabasesLoop w repo fi (yaml_Statement migrationFile)
                      (yaml_Databases migrationFile) []))
          else
            (case findProjectDatabases (w_EqualFold w) (w_FindDatabase w) (ProjectID repo)
                    (mi_Database (migrationInfo fi)) (mi_Environment (migrationInfo fi)) of
               Inl err \<Rightarrow>
                 ([], [getIgnoredFileActivityCreate (ProjectID repo) (FileName (item fi))
                         (Wrap ''Failed to find project databases'' err)])
             | Inr databases \<Rightarrow>
                 if ItemType (item fi) = FileItemTypeAdded
                 then (map (\<lambda>database.
                              \<lparr>md_MigrationType = mi_Type (migrationInfo fi),
                               md_DatabaseID = db_ID database, md_DatabaseName = [],
                               md_Statement = content,
                               md_SchemaVersion = mi_Version (migrationInfo fi)\<rparr>)
                         databases, [])
                 else
                   (case w_tryUpdateTasksFromModifiedFile w databases (FileName (item fi))
                           (mi_Version (migrationInfo fi)) content of
                      Some err \<Rightarrow>
                        ([], [getIgnoredFileActivityCreate (ProjectID repo) (FileName (item fi))
                                (Wrap ''Failed to find project task'' err)])
                    | None \<Rightarrow> ([], []))))"

text \<open>
  The loop of \<open>createIssueFromMigrationDetailList\<close> that chooses the issue type, starting
  from \<open>api.IssueDatabaseDataUpdate\<close>.
\<close>

fun issueTypeLoop :: "MigrationDetail list \<Rightarrow> IssueType \<Rightarrow> IssueType" where
  "issueTypeLoop [] issueType = issueType"
| "issueTypeLoop (detail # rest) issueType =
     issueTypeLoop rest
       (if md_MigrationType detail = Migrate \<or> md_MigrationType detail = Baseline
        then IssueDatabaseSchemaUpdate else issueType)"

text \<open>
  \<open>createIssueFromMigrationDetailList\<close>: the error it returns, if any, and the issues that
  exist afterwards (\<open>issues\<close> are those created before the call).
\<close>

definition createIssueFromMigrationDetailList ::
  "World \<Rightarrow> string \<Rightarrow> string \<Rightarrow> int \<Rightarrow> int \<Rightarrow> MigrationDetail list \<Rightarrow> IssueCreate list \<Rightarrow>
   error option \<times> IssueCreate list" where
  "createIssueFromMigrationDetailList w issueName issueDescription creatorID projectID
       migrationDetailList issues =
     (let issueType = issueTypeLoop migrationDetailList IssueDatabaseDataUpdate;
          issueCreate = \<lparr>ic_CreatorID = creatorID, ic_ProjectID = projectID, ic_Name = issueName,
                         ic_Type = issueType, ic_Description = issueDescription,
                         ic_DetailList = migrationDetailList\<rparr>
      in case w_createIssue w issueCreate of
           Inl err \<Rightarrow>
             (Some (HTTPError 500
                      (if issueType = IssueDatabaseDataUpdate
                       then ''Failed to create data update issue''
                       else ''Failed to create schema update issue'')), issues)
         | Inr issueID \<Rightarrow>
             (case w_CreateActivity w (CreatedIssueActivity projectID issueID issueName) of
                Some err \<Rightarrow>
                  (Some (HTTPError 500
                     ''Failed to create project activity after creating issue from repository push event''),
                   issues @ [issueCreate])
              | None \<Rightarrow> (None, issues @ [issueCreate])))"

text \<open>\<open>fmt.Sprintf(issueNameTemplate, databaseName, kind)\<close> with the template \<open>[%s] %s\<close>.\<close>

definition issueName :: "string \<Rightarrow> string \<Rightarrow> string" where
  "issueName databaseName kind = ''['' @ databaseName @ ''] '' @ kind"

text \<open>
  The loop of \<open>processFilesInProject\<close> that chooses between "Change data" and "Alter schema"
  for the merged issue; it stops at the first detail of kind \<open>Migrate\<close>.
\<close>

fun migrateTypeLoop :: "MigrationDetail list \<Rightarrow> string" where
  "migrateTypeLoop [] = ''Change data''"
| "migrateTypeLoop (d # rest) =
     (if md_MigrationType d = Migrate then ''Alter schema'' else migrateTypeLoop rest)"

text \<open>The variables of \<open>processFilesInProject\<close> that its loop over the files updates.\<close>

record filesState =
  migrationDetailList :: "MigrationDetail list"
  activityCreateList :: "ActivityCreate list"
  createdIssueList :: "string list"
  fileNameList :: "string list"
  issues :: "IssueCreate list"

text \<open>
  What \<open>processFilesInProject\<close> returns (the names of the created issues stand for the
  message \<open>Created issue "..." from push event\<close> built from them), and the issues that
  exist afterwards.
\<close>

record filesResult =
  createdIssues :: "string list"
  created :: bool
  activities :: "ActivityCreate list"
  failure :: "error option"
  issuesCreated :: "IssueCreate list"

text \<open>
  The loop over \<open>fileInfoList\<close>. It returns early (\<open>Inl\<close>) when the issue of an SDL schema
  file cannot be created.
\<close>

fun filesLoop ::
  "World \<Rightarrow> int \<Rightarrow> Repository \<Rightarrow> fileInfo list \<Rightarrow> filesState \<Rightarrow> filesResult + filesState" where
  "filesLoop w creatorID repo [] st = Inr st"
| "filesLoop w creatorID repo (fi # rest) st =
     (if fType fi = schemaFileType then
        (if SchemaChangeType (Project repo) = ProjectSchemaChangeTypeSDL then
           (case prepareIssueFromSDLFile w repo (migrationInfo fi) (FileName (item fi)) of
              (migrationDetailListForFile, activityCreateListForFile) \<Rightarrow>
                let st1 = st\<lparr>activityCreateList := activityCreateList st @ activityCreateListForFile\<rparr>
                in if length migrationDetailListForFile \<noteq> 0 then
                     (let name = issueName (mi_Database (migrationInfo fi)) ''Alter schema'';
                          issueDescription =
                            ''Apply schema diff by file ''
                            @ TrimPrefix (FileName (item fi)) (BaseDirectory repo @ ''/'')
                      in case createIssueFromMigrationDetailList w name issueDescription creatorID
                                (ProjectID repo) migrationDetailListForFile (issues st1) of
                           (Some e, issues') \<Rightarrow>
                             Inl \<lparr>createdIssues = [], created = False,
                                  activities = activityCreateList st1,
                                  failure = Some (HTTPError 500 ''Failed to create issue''),
                                  issuesCreated = issues'\<rparr>
                         | (None, issues') \<Rightarrow>
                             filesLoop w creatorID repo rest
                               (st1\<lparr>createdIssueList := createdIssueList st1 @ [name],
                                    issues := issues'\<rparr>))
                   else filesLoop w creatorID repo rest st1)
         else filesLoop w creatorID repo rest st)
      else
        (case prepareIssueFromFile w repo fi of
           (migrationDetailListForFile, activityCreateListForFile) \<Rightarrow>
             filesLoop w creatorID repo rest
               (st\<lparr>activityCreateList := activityCreateList st @ activityCreateListForFile,
                   migrationDetailList := migrationDetailList st @ migrationDetailListForFile,
                   fileNameList :=
                     (if length migrationDetailListForFile \<noteq> 0
                      then fileNameList st
                           @ [TrimPrefix (FileName (item fi)) (BaseDirectory repo @ ''/'')]
                      else fileNameList st)\<rparr>)))"

text \<open>
  \<open>processFilesInProject\<close>, given the creator ID that \<open>getIssueCreatorID\<close> found for the
  author of the first commit. The source reads \<open>fileInfoList[0]\<close> for the database name of
  the merged issue; the detail list is non-empty only when the file list is.
\<close>

definition processFilesInProject ::
  "World \<Rightarrow> int \<Rightarrow> Repository \<Rightarrow> fileInfo list \<Rightarrow> filesResult" where
  "processFilesInProject w creatorID repo fileInfoList =
     (if TenantMode (Project repo) = TenantModeTenant \<and> \<not> w_MultiTenancyEnabled w
      then \<lparr>createdIssues = [], created = False, activities = [],
            failure = Some (HTTPError 403 ''multi-tenancy is not enabled''), issuesCreated = []\<rparr>
      else
        case filesLoop w creatorID repo fileInfoList
               \<lparr>migrationDetailList = [], activityCreateList = [], createdIssueList = [],
                fileNameList = [], issues = []\<rparr> of
          Inl result \<Rightarrow> result
        | Inr st \<Rightarrow>
            if length (migrationDetailList st) = 0
            then \<lparr>createdIssues = [], created = (length (createdIssueList st) \<noteq> 0),
                  activities = activityCreateList st, failure = None, issuesCreated = issues st\<rparr>
            else
              (let migrateType = migrateTypeLoop (migrationDetailList st);
                   databaseName = (case fileInfoList of [] \<Rightarrow> [] | fi # rest \<Rightarrow> mi_Database (migrationInfo fi));
                   name = issueName databaseName migrateType;
                   issueDescription =
                     ''By VCS files:'' @ newline @ newline @ Join (fileNameList st) newline @ newline
               in case createIssueFromMigrationDetailList w name issueDescription creatorID
                         (ProjectID repo) (migrationDetailList st) (issues st) of
                    (Some e, issues') \<Rightarrow>
                      \<lparr>createdIssues = [], created = (length (createdIssueList st) \<noteq> 0),
                       activities = activityCreateList st,
                       failure = Some (HTTPError 500 (''Failed to create issue '' @ name)),
                       issuesCreated = issues'\<rparr>
                  | (None, issues') \<Rightarrow>
                      \<lparr>createdIssues = createdIssueList st @ [name], created = True,
                       activities = activityCreateList st, failure = None, issuesCreated = issues'\<rparr>))"

subsection \<open>The claim's reading of kinds, types and names\<close>

definition isSchemaKind :: "MigrationDetail \<Rightarrow> bool" where
  "isSchemaKind detail = (md_MigrationType detail = Migrate \<or> md_MigrationType detail = Baseline)"

subsection \<open>Example project and files\<close>

definition shopWorld :: World where
  "shopWorld =
     \<lparr>w_MultiTenancyEnabled = False,
      w_readFileContent = (\<lambda>file. Inr ''ALTER TABLE t ADD c INT;''),
      w_FindDatabase = shopStore,
      w_EqualFold = asciiEqualFold,
      w_yamlUnmarshal = (\<lambda>content. Inl (ErrParse ''not YAML'')),
      w_tryUpdateTasksFromModifiedFile = (\<lambda>databases fileName schemaVersion statement. None),
      w_createIssue = (\<lambda>issueCreate. Inr 1),
      w_CreateActivity = (\<lambda>activityCreate. None)\<rparr>"

definition shopRepo :: "SchemaChangeType \<Rightarrow> Repository" where
  "shopRepo changeType =
     \<lparr>repo_ID = 1, ProjectID = 1,
      Project = \<lparr>proj_Name = ''shop'', TenantMode = TenantModeDisabled, DBNameTemplate = [],
                 SchemaChangeType = changeType\<rparr>,
      BaseDirectory = ''db'', FilePathTemplate = ''{{ENV_NAME}}/{{DB_NAME}}__{{VERSION}}__{{TYPE}}.sql'',
      SchemaPathTemplate = ''{{ENV_NAME}}/.{{DB_NAME}}__LATEST.sql''\<rparr>"

definition shopFile :: "SchemaChangeType \<Rightarrow> string \<Rightarrow> string \<Rightarrow> MigrationType \<Rightarrow> fileType \<Rightarrow> fileInfo" where
  "shopFile changeType name version kind ft =
     \<lparr>item = addedFile name,
      migrationInfo = \<lparr>mi_Version = version, mi_Database = ''shop'', mi_Environment = ''dev'',
                       mi_Type = kind\<rparr>,
      fType = ft, repository = shopRepo changeType\<rparr>"

section \<open>filepath.Match and the branch filter\<close>
































section \<open>Ordering the files of one database\<close>





subsection \<open>What the ordering is measured against\<close>




subsection \<open>A sorting routine that meets the documentation\<close>



subsection \<open>sort.Slice as the Go library implements it\<close>
























































subsection \<open>Example: thirteen files of one database\<close>




section \<open>The GitHub signature check\<close>

text \<open>
  \<open>hex.EncodeToString\<close>, \<open>subtle.ConstantTimeCompare\<close> (1 when the two byte strings are
  equal, 0 otherwise, also when their lengths differ) and
  \<open>validateGitHubWebhookSignature256\<close>. HMAC-SHA256 (\<open>hmac.New(sha256.New, key)\<close>, written
  with the body and summed) is a parameter; writing to it never fails.
\<close>

definition hexDigit :: "nat \<Rightarrow> char" where
  "hexDigit n = (if n < 10 then char_of (48 + n) else char_of (87 + n))"

definition EncodeToString :: "string \<Rightarrow> string" where
  "EncodeToString src =
     concat (map (\<lambda>c. [hexDigit (of_char c div 16), hexDigit (of_char c mod 16)]) src)"

fun differs :: "string \<Rightarrow> string \<Rightarrow> bool \<Rightarrow> bool" where
  "differs (x # xs) (y # ys) v = differs xs ys (v \<or> x \<noteq> y)"
| "differs xs ys v = v"

definition ConstantTimeCompare :: "string \<Rightarrow> string \<Rightarrow> int" where
  "ConstantTimeCompare x y =
     (if length x \<noteq> length y then 0 else if differs x y False then 0 else 1)"

definition validateGitHubWebhookSignature256 ::
  "(string \<Rightarrow> string \<Rightarrow> string) \<Rightarrow> string \<Rightarrow> string \<Rightarrow> string \<Rightarrow> error + bool" where
  "validateGitHubWebhookSignature256 hmacSHA256 signature key body =
     (let signature' = TrimPrefix signature ''sha256='';
          got = EncodeToString (hmacSHA256 key body)
      in Inr (ConstantTimeCompare signature' got = 1))"

chapter \<open>Verified properties\<close>

section \<open>Properties of findProjectDatabases\<close>

lemma markedLoop_iff:
  "markedLoop marked databases =
     (\<not> distinct (environmentIDs databases) \<or> set (environmentIDs databases) \<inter> marked \<noteq> {})"
  by (induction databases arbitrary: marked) (auto simp: environmentIDs_def)

lemma markedLoop_empty: "markedLoop {} databases = (\<not> distinct (environmentIDs databases))"
  by (simp add: markedLoop_iff)

text \<open>
  C10. findProjectDatabases never returns a list that holds two databases of the same
  environment: a returned list has pairwise distinct environment IDs (and is the whole
  environment-filtered candidate list, so nothing partial is returned). When two of the
  environment-filtered candidates share an environment, when the store finds no database
  of that name, or when a non-empty environment filter leaves none, the result is an error.
\<close>

theorem findProjectDatabases_no_shared_environment:
  "(findProjectDatabases EqualFold FindDatabase projectID dbName envName = Inr databases \<longrightarrow>
      distinct (environmentIDs databases) \<and>
      (\<exists>foundDatabases. FindDatabase projectID dbName = Inr foundDatabases \<and>
         databases = environmentFiltered EqualFold envName foundDatabases)) \<and>
   (FindDatabase projectID dbName = Inr foundDatabases \<and>
    \<not> distinct (environmentIDs (environmentFiltered EqualFold envName foundDatabases)) \<longrightarrow>
      findProjectDatabases EqualFold FindDatabase projectID dbName envName
        = Inl (ErrMultipleDatabases projectID dbName envName)) \<and>
   (FindDatabase projectID dbName = Inr [] \<longrightarrow>
      findProjectDatabases EqualFold FindDatabase projectID dbName envName
        = Inl (ErrNoDatabase projectID dbName)) \<and>
   (FindDatabase projectID dbName = Inr foundDatabases \<and> foundDatabases \<noteq> [] \<and> envName \<noteq> [] \<and>
    environmentFiltered EqualFold envName foundDatabases = [] \<longrightarrow>
      findProjectDatabases EqualFold FindDatabase projectID dbName envName
        = Inl (ErrNoDatabaseForEnvironment projectID dbName envName))"
  by (auto simp: findProjectDatabases_def environmentFiltered_def markedLoop_empty
                 environmentIDs_def Let_def
           split: sum.splits if_splits)

theorem findProjectDatabases_no_shared_environment_witness:
  "findProjectDatabases asciiEqualFold shopStore 1 ''shop'' ''dev''
     = Inr [mkDatabase 101 ''shop'' 1 ''Dev''] \<and>
   distinct (environmentIDs [mkDatabase 101 ''shop'' 1 ''Dev'']) \<and>
   findProjectDatabases asciiEqualFold shopStore 1 ''twin'' ''DEV''
     = Inl (ErrMultipleDatabases 1 ''twin'' ''DEV'') \<and>
   findProjectDatabases asciiEqualFold shopStore 1 ''none'' ''dev''
     = Inl (ErrNoDatabase 1 ''none'') \<and>
   findProjectDatabases asciiEqualFold shopStore 1 ''shop'' ''qa''
     = Inl (ErrNoDatabaseForEnvironment 1 ''shop'' ''qa'')"
proof -
  let ?dev = "[mkDatabase 101 ''shop'' 1 ''Dev'']"
  let ?twins = "[mkDatabase 201 ''twin'' 1 ''Dev'', mkDatabase 202 ''twin'' 1 ''Dev'']"
  let ?shops = "[mkDatabase 101 ''shop'' 1 ''Dev'', mkDatabase 102 ''shop'' 2 ''Prod'']"
  have e1: "findProjectDatabases asciiEqualFold shopStore 1 ''shop'' ''dev'' = Inr ?dev"
    by code_simp
  have e2: "shopStore 1 ''twin'' = Inr ?twins \<and>
            \<not> distinct (environmentIDs (environmentFiltered asciiEqualFold ''DEV'' ?twins))"
    by code_simp
  have e3: "shopStore 1 ''none'' = Inr []"
    by code_simp
  have e4: "shopStore 1 ''shop'' = Inr ?shops \<and> ?shops \<noteq> [] \<and> ''qa'' \<noteq> [] \<and>
            environmentFiltered asciiEqualFold ''qa'' ?shops = []"
    by code_simp
  from e1 findProjectDatabases_no_shared_environment
            [of asciiEqualFold shopStore 1 "''shop''" "''dev''" ?dev]
  have "distinct (environmentIDs ?dev)" by blast
  moreover from e2 findProjectDatabases_no_shared_environment
            [of asciiEqualFold shopStore 1 "''twin''" "''DEV''" _ ?twins]
  have "findProjectDatabases asciiEqualFold shopStore 1 ''twin'' ''DEV''
          = Inl (ErrMultipleDatabases 1 ''twin'' ''DEV'')" by blast
  moreover from e3 findProjectDatabases_no_shared_environment
            [of asciiEqualFold shopStore 1 "''none''" "''dev''"]
  have "findProjectDatabases asciiEqualFold shopStore 1 ''none'' ''dev''
          = Inl (ErrNoDatabase 1 ''none'')" by blast
  moreover from e4 findProjectDatabases_no_shared_environment
            [of asciiEqualFold shopStore 1 "''shop''" "''qa''" _ ?shops]
  have "findProjectDatabases asciiEqualFold shopStore 1 ''shop'' ''qa''
          = Inl (ErrNoDatabaseForEnvironment 1 ''shop'' ''qa'')" by blast
  ultimately show ?thesis using e1 by blast
qed

section \<open>Ping and non-push events\<close>

text \<open>
  C9 as stated fails: a GitLab event whose kind is not push (here \<open>tag_push\<close>) and a
  GitHub event that is neither ping nor push (here \<open>pull_request\<close>) are answered with
  the error 400, not with 200, whatever the processing would have done.
\<close>

theorem non_push_event_rejected_counterexample:
  "gitlabHandler kindOnly gitlabCreates tagPushRequest
     = Inl (HTTPError 400 ''Invalid webhook event type, got tag_push, want push'') \<and>
   \<not> respondsOK (gitlabHandler kindOnly gitlabCreates tagPushRequest) \<and>
   githubHandler anyGitHubEvent githubCreates tagPushRequest
     = Inl (HTTPError 400 ''Invalid webhook event type, got pull_request, want push'') \<and>
   \<not> respondsOK (githubHandler anyGitHubEvent githubCreates tagPushRequest)"
  by (simp add: gitlabHandler_def githubHandler_def respondsOK_def tagPushRequest_def
        kindOnly_def anyGitHubEvent_def gitlab_WebhookPush_def github_WebhookPush_def
        github_WebhookPing_def)

text \<open>
  C9, amended. Only the GitHub ping event is a no-op answered with 200 "OK": the response
  does not depend on the body, on the parser or on the processing. Every other kind
  that is not push is rejected with the error 400 on both endpoints (on the GitLab
  endpoint once the body has been read and parsed), again without any processing.
\<close>

theorem event_kind_dispatch:
  "(X_GitHub_Event c = github_WebhookPing \<longrightarrow>
      githubHandler unmarshal processing c = Inr (String 200 ''OK'')) \<and>
   (X_GitHub_Event c \<noteq> github_WebhookPing \<and> X_GitHub_Event c \<noteq> github_WebhookPush \<longrightarrow>
      githubHandler unmarshal processing c
        = Inl (HTTPError 400 (''Invalid webhook event type, got '' @ X_GitHub_Event c @ '', want push''))) \<and>
   (Body c = Inr body \<and> unmarshal' body = Inr pushEvent \<and> ObjectKind pushEvent \<noteq> gitlab_WebhookPush \<longrightarrow>
      gitlabHandler unmarshal' processing' c
        = Inl (HTTPError 400 (''Invalid webhook event type, got '' @ ObjectKind pushEvent @ '', want push'')))"
  by (simp add: gitlabHandler_def githubHandler_def github_WebhookPush_def)

theorem event_kind_dispatch_witness:
  "githubHandler anyGitHubEvent githubCreates (tagPushRequest\<lparr>X_GitHub_Event := ''ping''\<rparr>)
     = Inr (String 200 ''OK'') \<and>
   githubHandler anyGitHubEvent githubCreates tagPushRequest
     = Inl (HTTPError 400 ''Invalid webhook event type, got pull_request, want push'') \<and>
   gitlabHandler kindOnly gitlabCreates tagPushRequest
     = Inl (HTTPError 400 ''Invalid webhook event type, got tag_push, want push'')"
proof -
  let ?ping = "tagPushRequest\<lparr>X_GitHub_Event := ''ping''\<rparr>"
  have h1: "X_GitHub_Event ?ping = github_WebhookPing"
    by (simp add: github_WebhookPing_def)
  have h2: "X_GitHub_Event tagPushRequest \<noteq> github_WebhookPing \<and>
            X_GitHub_Event tagPushRequest \<noteq> github_WebhookPush"
    by (simp add: tagPushRequest_def github_WebhookPing_def github_WebhookPush_def)
  have h3: "Body tagPushRequest = Inr ''tag_push'' \<and>
            kindOnly ''tag_push'' = Inr \<lparr>ObjectKind = ''tag_push'', gl_ProjectID = 7, gl_Ref = ''refs/heads/main''\<rparr> \<and>
            ObjectKind \<lparr>ObjectKind = ''tag_push'', gl_ProjectID = 7, gl_Ref = ''refs/heads/main''\<rparr> \<noteq> gitlab_WebhookPush"
    by (simp add: tagPushRequest_def kindOnly_def gitlab_WebhookPush_def)
  from h1 event_kind_dispatch [of ?ping anyGitHubEvent githubCreates]
  have "githubHandler anyGitHubEvent githubCreates ?ping = Inr (String 200 ''OK'')" by blast
  moreover from h2 event_kind_dispatch [of tagPushRequest anyGitHubEvent githubCreates]
  have "githubHandler anyGitHubEvent githubCreates tagPushRequest
          = Inl (HTTPError 400 (''Invalid webhook event type, got '' @ X_GitHub_Event tagPushRequest @ '', want push''))"
    by blast
  moreover from h3 event_kind_dispatch [of tagPushRequest _ _ "''tag_push''" kindOnly
       "\<lparr>ObjectKind = ''tag_push'', gl_ProjectID = 7, gl_Ref = ''refs/heads/main''\<rparr>" gitlabCreates]
  have "gitlabHandler kindOnly gitlabCreates tagPushRequest
          = Inl (HTTPError 400 (''Invalid webhook event type, got '' @ ''tag_push'' @ '', want push''))"
    by simp
  ultimately show ?thesis by (simp add: tagPushRequest_def)
qed

section \<open>The report formatters\<close>

lemma mostSevere_Cons:
  "mostSevere (s # ss) =
     (if s = Error \<or> Error \<in> set ss then Error
      else if s = Warn \<or> Warn \<in> set ss then Warn else Success)"
  by (auto simp: mostSevere_def)

lemma mostSevere_cong_set: "set xs = set ys \<Longrightarrow> mostSevere xs = mostSevere ys"
  by (simp add: mostSevere_def)

lemma gitlabAdviceLoop_eq:
  "gitlabAdviceLoop filePath adviceList status testcaseList =
     (mostSevere (status # map Status (reported adviceList)),
      testcaseList @ map (gitlabTestcase filePath) (reported adviceList))"
proof (induction adviceList arbitrary: status testcaseList)
  case Nil
  show ?case by (cases status) (simp_all add: mostSevere_def reported_def)
next
  case (Cons advice rest)
  show ?case
    by (cases status; cases "Status advice")
       (simp_all add: Cons.IH reported_def mostSevere_Cons)
qed

lemma githubAdviceLoop_eq:
  "githubAdviceLoop filePath adviceList status messageList =
     (mostSevere (status # map Status (reported adviceList)),
      messageList @ map (githubMessage filePath)
        (filter (\<lambda>advice. Status advice \<noteq> Success) (reported adviceList)))"
proof (induction adviceList arbitrary: status messageList)
  case Nil
  show ?case by (cases status) (simp_all add: mostSevere_def reported_def)
next
  case (Cons advice rest)
  show ?case
    by (cases status; cases "Status advice")
       (simp_all add: Cons.IH reported_def mostSevere_Cons)
qed

lemma mostSevere_nested:
  "mostSevere (mostSevere (s # xs) # ys) = mostSevere (s # xs @ ys)"
  by (auto simp: mostSevere_def)

lemma gitlabFileLoop_eq:
  "gitlabFileLoop adviceMap fileList status testsuiteList =
     (mostSevere (status # map Status (reported (concat (map (lookupAdvice adviceMap) fileList)))),
      testsuiteList @ concat (map (gitlabFileOutput adviceMap) fileList))"
proof (induction fileList arbitrary: status testsuiteList)
  case Nil
  show ?case by (cases status) (simp_all add: mostSevere_def reported_def)
next
  case (Cons filePath rest)
  show ?case
    by (simp add: gitlabAdviceLoop_eq Cons.IH mostSevere_nested gitlabFileOutput_def reported_def Let_def)
qed

lemma githubFileLoop_eq:
  "githubFileLoop adviceMap fileList status messageList =
     (mostSevere (status # map Status (reported (concat (map (lookupAdvice adviceMap) fileList)))),
      messageList @ concat (map (githubFileOutput adviceMap) fileList))"
proof (induction fileList arbitrary: status messageList)
  case Nil
  show ?case by (cases status) (simp_all add: mostSevere_def reported_def)
next
  case (Cons filePath rest)
  show ?case
    by (simp add: githubAdviceLoop_eq Cons.IH mostSevere_nested githubFileOutput_def reported_def)
qed

lemma lookupAdvice_entry:
  "distinct (map fst adviceMap) \<Longrightarrow> (filePath, adviceList) \<in> set adviceMap \<Longrightarrow>
   lookupAdvice adviceMap filePath = adviceList"
  by (simp add: lookupAdvice_def)

lemma set_all_looked_up:
  assumes "distinct (map fst adviceMap)"
  shows "set (concat (map (lookupAdvice adviceMap) (sort (map fst adviceMap))))
         = set (allAdvices adviceMap)"
proof -
  have "(\<Union>k \<in> fst ` set adviceMap. set (lookupAdvice adviceMap k))
        = (\<Union>e \<in> set adviceMap. set (snd e))"
    using assms by (force simp: lookupAdvice_entry)
  then show ?thesis by (simp add: allAdvices_def)
qed

lemma mostSevere_Success_Cons: "mostSevere (Success # xs) = mostSevere xs"
  by (simp add: mostSevere_def)

text \<open>
  C6 as stated fails: an advice with code 0 is skipped whatever its status. For the map
  with the one file \<open>a.sql\<close> and the one advice of status \<open>Error\<close> and code 0, the most
  severe status seen is \<open>Error\<close>, and both formatters return \<open>Success\<close>.
\<close>

theorem formatters_skip_code_zero_counterexample:
  "res_Status (convertSQLAdviceToGitLabCIResult [(''a.sql'', [okCodeError])]) = Success \<and>
   res_Status (convertSQLAdiceToGitHubActionResult [(''a.sql'', [okCodeError])]) = Success \<and>
   mostSevere (map Status (allAdvices [(''a.sql'', [okCodeError])])) = Error"
  by code_simp

text \<open>
  C6, amended. For an advice-by-file map (each file once), both formatters return as
  aggregate status the most severe status among the advices whose code is not 0 (advices
  with code 0 are skipped before the status is looked at), \<open>Success\<close> when there is none.
  The GitLab document holds the test suites of the files that have a test case, and the
  GitHub content holds the messages of the files, both in the order of the sorted list of
  the map's file paths.
\<close>

theorem formatters_status_and_order:
  assumes "distinct (map fst adviceMap)"
  shows "res_Status (convertSQLAdviceToGitLabCIResult adviceMap)
           = mostSevere (map Status (reported (allAdvices adviceMap))) \<and>
         res_Status (convertSQLAdiceToGitHubActionResult adviceMap)
           = mostSevere (map Status (reported (allAdvices adviceMap))) \<and>
         res_Content (convertSQLAdviceToGitLabCIResult adviceMap)
           = [gitlabDocument (concat (map (gitlabFileOutput adviceMap) (sort (map fst adviceMap))))] \<and>
         res_Content (convertSQLAdiceToGitHubActionResult adviceMap)
           = concat (map (githubFileOutput adviceMap) (sort (map fst adviceMap))) \<and>
         sorted (sort (map fst adviceMap)) \<and>
         set (sort (map fst adviceMap)) = fst ` set adviceMap"
proof -
  have "set (map Status (reported (concat (map (lookupAdvice adviceMap) (sort (map fst adviceMap))))))
        = set (map Status (reported (allAdvices adviceMap)))"
    using set_all_looked_up [OF assms] by (simp add: reported_def)
  then have "mostSevere (map Status (reported (concat (map (lookupAdvice adviceMap) (sort (map fst adviceMap))))))
        = mostSevere (map Status (reported (allAdvices adviceMap)))"
    by (rule mostSevere_cong_set)
  then show ?thesis
    by (simp add: convertSQLAdviceToGitLabCIResult_def convertSQLAdiceToGitHubActionResult_def
          gitlabFileLoop_eq githubFileLoop_eq mostSevere_Success_Cons gitlabDocument_def)
qed

theorem formatters_status_and_order_witness:
  "distinct (map fst exampleAdviceMap) \<and>
   res_Status (convertSQLAdviceToGitLabCIResult exampleAdviceMap) = Error \<and>
   res_Status (convertSQLAdiceToGitHubActionResult exampleAdviceMap) = Error \<and>
   res_Content (convertSQLAdiceToGitHubActionResult exampleAdviceMap)
     = githubFileOutput exampleAdviceMap ''a.sql'' @ githubFileOutput exampleAdviceMap ''b.sql''"
proof -
  have d: "distinct (map fst exampleAdviceMap)"
    by code_simp
  have s: "mostSevere (map Status (reported (allAdvices exampleAdviceMap))) = Error"
    by code_simp
  have o: "sort (map fst exampleAdviceMap) = [''a.sql'', ''b.sql'']"
    by code_simp
  from formatters_status_and_order [OF d] s o d show ?thesis
    by simp
qed

section \<open>Classifying a changed file\<close>

lemma getFileInfoLoop_matched:
  "\<not> list_ex (yamlNotDML parseMI fileItem) repositoryList \<Longrightarrow>
   \<exists>info ft. getFileInfoLoop parseMI parseSI fileItem repositoryList (info0, ft0, rs0)
       = Inr (info, ft, rs0 @ matchedRepositories parseMI parseSI fileItem repositoryList)"
proof (induction repositoryList arbitrary: info0 ft0 rs0)
  case Nil
  show ?case by (simp add: matchedRepositories_def)
next
  case (Cons repo rest)
  from Cons.prems have rest: "\<not> list_ex (yamlNotDML parseMI fileItem) rest"
    and here: "\<not> yamlNotDML parseMI fileItem repo" by simp_all
  note IH = Cons.IH [OF rest]
  show ?case
    using here IH [of info0 ft0 rs0] IH [of _ migrationFileType "rs0 @ [repo]"]
          IH [of _ schemaFileType "rs0 @ [repo]"]
    by (auto simp: matchedRepositories_def matchesRepository_def yamlNotDML_def
             split: prod.splits sum.splits option.splits)
qed

lemma getFileInfoLoop_sets_info:
  "getFileInfoLoop parseMI parseSI fileItem repositoryList (info0, ft0, rs0) = Inr (info, ft, rs) \<Longrightarrow>
   (rs0 \<noteq> [] \<longrightarrow> info0 \<noteq> None) \<Longrightarrow> rs \<noteq> [] \<longrightarrow> info \<noteq> None"
proof (induction repositoryList arbitrary: info0 ft0 rs0)
  case Nil
  then show ?case by simp
next
  case (Cons repo rest)
  then show ?case
    by (auto split: prod.splits sum.splits option.splits if_splits)
qed

lemma getFileInfo_by_matches:
  assumes "\<not> list_ex (yamlNotDML parseMI fileItem) repositoryList"
  shows "(matchedRepositories parseMI parseSI fileItem repositoryList = [] \<longrightarrow>
            getFileInfo parseMI parseSI fileItem repositoryList = Inl ErrNotAssociated) \<and>
         (1 < length (matchedRepositories parseMI parseSI fileItem repositoryList) \<longrightarrow>
            getFileInfo parseMI parseSI fileItem repositoryList
              = Inl (ErrNotExactlyOneProject
                       (Join (map (\<lambda>repo. proj_Name (Project repo))
                                (matchedRepositories parseMI parseSI fileItem repositoryList)) '', '')))"
proof -
  obtain info ft where
    "getFileInfoLoop parseMI parseSI fileItem repositoryList (None, unknownFileType, [])
       = Inr (info, ft, matchedRepositories parseMI parseSI fileItem repositoryList)"
    using getFileInfoLoop_matched [OF assms, of parseSI None unknownFileType "[]"] by auto
  then show ?thesis
    by (auto simp: getFileInfo_def split: list.splits)
qed

lemma groupFileInfoByRepoLoop_skips:
  "getFileInfo parseMI parseSI fileItem repositoryList = Inl err \<Longrightarrow>
   groupFileInfoByRepoLoop parseMI parseSI (fileItem # rest) repositoryList acc
     = groupFileInfoByRepoLoop parseMI parseSI rest repositoryList acc"
  by simp

text \<open>
  C2 as stated fails: a file that matches two repository links is not a hard error of the
  pipeline. \<open>getFileInfo\<close> returns an error that names both projects, and
  \<open>groupFileInfoByRepo\<close> treats it as it treats every error of \<open>getFileInfo\<close>: it skips the
  file. The file after it is still grouped, and the result is what it would have been
  without the ambiguous file.
\<close>

theorem ambiguous_file_is_skipped_counterexample:
  "getFileInfo exampleParseMigrationInfo noSchemaFile (addedFile ''db/shop/shop__v1.sql'')
     [alphaRepo, betaRepo] = Inl (ErrNotExactlyOneProject ''alpha, beta'') \<and>
   groupFileInfoByRepo exampleParseMigrationInfo noSchemaFile
     [addedFile ''db/shop/shop__v1.sql'', addedFile ''db/shop__v2.sql''] [alphaRepo, betaRepo]
     = [(1, [\<lparr>item = addedFile ''db/shop__v2.sql'',
                migrationInfo = \<lparr>mi_Version = ''v1'', mi_Database = ''shop'',
                                 mi_Environment = [], mi_Type = Migrate\<rparr>,
                fType = migrationFileType, repository = alphaRepo\<rparr>])] \<and>
   groupFileInfoByRepo exampleParseMigrationInfo noSchemaFile
     [addedFile ''db/shop/shop__v1.sql'', addedFile ''db/shop__v2.sql''] [alphaRepo, betaRepo]
     = groupFileInfoByRepo exampleParseMigrationInfo noSchemaFile
         [addedFile ''db/shop__v2.sql''] [alphaRepo, betaRepo]"
  by code_simp

text \<open>
  C2, amended. For a changed file that no candidate parses as a non-DML YAML migration:
  when it matches no repository link, \<open>getFileInfo\<close> returns the error "not associated with
  any project"; when it matches more than one, \<open>getFileInfo\<close> returns the error that names
  the projects of the matching links. Either way, and for every other error of
  \<open>getFileInfo\<close>, \<open>groupFileInfoByRepo\<close> only skips that file and goes on with the files
  after it.
\<close>

theorem unmatched_and_ambiguous_files:
  "(\<not> list_ex (yamlNotDML parseMI fileItem) repositoryList \<and>
    matchedRepositories parseMI parseSI fileItem repositoryList = [] \<longrightarrow>
      getFileInfo parseMI parseSI fileItem repositoryList = Inl ErrNotAssociated) \<and>
   (\<not> list_ex (yamlNotDML parseMI fileItem) repositoryList \<and>
    1 < length (matchedRepositories parseMI parseSI fileItem repositoryList) \<longrightarrow>
      getFileInfo parseMI parseSI fileItem repositoryList
        = Inl (ErrNotExactlyOneProject
                 (Join (map (\<lambda>repo. proj_Name (Project repo))
                          (matchedRepositories parseMI parseSI fileItem repositoryList)) '', ''))) \<and>
   (getFileInfo parseMI parseSI fileItem repositoryList = Inl err \<longrightarrow>
      groupFileInfoByRepoLoop parseMI parseSI (fileItem # rest) repositoryList acc
        = groupFileInfoByRepoLoop parseMI parseSI rest repositoryList acc)"
  using getFileInfo_by_matches [of parseMI fileItem repositoryList parseSI]
  by (simp del: groupFileInfoByRepoLoop.simps add: groupFileInfoByRepoLoop_skips)

theorem unmatched_and_ambiguous_files_witness:
  "getFileInfo exampleParseMigrationInfo noSchemaFile (addedFile ''README.md'') [alphaRepo, betaRepo]
     = Inl ErrNotAssociated \<and>
   getFileInfo exampleParseMigrationInfo noSchemaFile (addedFile ''db/shop/shop__v1.sql'')
     [alphaRepo, betaRepo] = Inl (ErrNotExactlyOneProject ''alpha, beta'') \<and>
   groupFileInfoByRepoLoop exampleParseMigrationInfo noSchemaFile
     [addedFile ''db/shop/shop__v1.sql'', addedFile ''db/shop__v2.sql''] [alphaRepo, betaRepo] []
     = groupFileInfoByRepoLoop exampleParseMigrationInfo noSchemaFile
         [addedFile ''db/shop__v2.sql''] [alphaRepo, betaRepo] []"
proof -
  let ?repos = "[alphaRepo, betaRepo]"
  let ?readme = "addedFile ''README.md''"
  let ?both = "addedFile ''db/shop/shop__v1.sql''"
  have h0: "\<not> list_ex (yamlNotDML exampleParseMigrationInfo ?readme) ?repos \<and>
            matchedRepositories exampleParseMigrationInfo noSchemaFile ?readme ?repos = []"
    by code_simp
  have h2: "\<not> list_ex (yamlNotDML exampleParseMigrationInfo ?both) ?repos \<and>
            matchedRepositories exampleParseMigrationInfo noSchemaFile ?both ?repos = ?repos"
    by code_simp
  have n: "Join (map (\<lambda>repo. proj_Name (Project repo)) ?repos) '', '' = ''alpha, beta''"
    by code_simp
  from h0 unmatched_and_ambiguous_files
            [of exampleParseMigrationInfo ?readme ?repos noSchemaFile]
  have r0: "getFileInfo exampleParseMigrationInfo noSchemaFile ?readme ?repos = Inl ErrNotAssociated"
    by blast
  from h2 unmatched_and_ambiguous_files
            [of exampleParseMigrationInfo ?both ?repos noSchemaFile]
  have "getFileInfo exampleParseMigrationInfo noSchemaFile ?both ?repos
          = Inl (ErrNotExactlyOneProject (Join (map (\<lambda>repo. proj_Name (Project repo)) ?repos) '', ''))"
    by simp
  with n have r2: "getFileInfo exampleParseMigrationInfo noSchemaFile ?both ?repos
          = Inl (ErrNotExactlyOneProject ''alpha, beta'')"
    by simp
  from r2 unmatched_and_ambiguous_files
            [of exampleParseMigrationInfo ?both ?repos noSchemaFile
                "ErrNotExactlyOneProject ''alpha, beta''" "[addedFile ''db/shop__v2.sql'']" "[]"]
  have "groupFileInfoByRepoLoop exampleParseMigrationInfo noSchemaFile
          [?both, addedFile ''db/shop__v2.sql''] ?repos []
        = groupFileInfoByRepoLoop exampleParseMigrationInfo noSchemaFile
            [addedFile ''db/shop__v2.sql''] ?repos []"
    by blast
  with r0 r2 show ?thesis by blast
qed

section \<open>The template handed to the parser\<close>

text \<open>
  What the classifier passes to the parser: the "allow omit database name" flag is true
  exactly for a tenant-mode project with a YAML file or an empty database-name template,
  and for a tenant-mode project with a YAML file the first occurrence of \<open>.sql\<close> in the
  joined template is replaced by \<open>.yml\<close>. That is the suffix when the template ends with
  \<open>.sql\<close> and has no other occurrence of it.
\<close>

lemma templateAndOmit_flag:
  "snd (templateAndOmit fileItem repo) =
     (TenantMode (Project repo) = TenantModeTenant \<and>
      (IsYAML fileItem \<or> DBNameTemplate (Project repo) = []))"
  by (simp add: templateAndOmit_def Let_def)

lemma templateAndOmit_template:
  "fst (templateAndOmit fileItem repo) =
     (if TenantMode (Project repo) = TenantModeTenant \<and> IsYAML fileItem
      then ReplaceFirst (path_Join [BaseDirectory repo, FilePathTemplate repo]) ''.sql'' ''.yml''
      else path_Join [BaseDirectory repo, FilePathTemplate repo])"
  by (simp add: templateAndOmit_def Let_def)

lemma ReplaceFirst_only_suffix:
  "\<forall>i < length p. \<not> HasPrefix (drop i (p @ old)) old \<Longrightarrow> old \<noteq> [] \<Longrightarrow>
   ReplaceFirst (p @ old) old new = p @ new"
proof (induction p)
  case Nil
  then show ?case by (cases old) (simp_all add: HasPrefix_def)
next
  case (Cons c p)
  from Cons.prems(1) have "\<not> HasPrefix (drop 0 ((c # p) @ old)) old" by blast
  then have h: "\<not> HasPrefix (c # p @ old) old" by simp
  have "\<forall>i < length p. \<not> HasPrefix (drop i (p @ old)) old"
  proof (intro allI impI)
    fix i assume "i < length p"
    then have "Suc i < length (c # p)" by simp
    with Cons.prems(1) have "\<not> HasPrefix (drop (Suc i) ((c # p) @ old)) old" by blast
    then show "\<not> HasPrefix (drop i (p @ old)) old" by simp
  qed
  with Cons.IH Cons.prems(2) have "ReplaceFirst (p @ old) old new = p @ new" by blast
  with h show ?case by simp
qed

text \<open>
  C5, at the input where the code departs from it. For the tenant-mode project whose base
  directory is \<open>bytebase.sql\<close> and the YAML file \<open>bytebase.sql/v1__init.yml\<close>, the
  database name may be omitted, as the claim says; but the template handed to the
  parser has its first \<open>.sql\<close> replaced, the one in the base directory, and still ends with
  \<open>.sql\<close>, where the claim has the suffix replaced.
\<close>

theorem templateAndOmit_replaces_first_occurrence:
  "path_Join [BaseDirectory tenantRepo, FilePathTemplate tenantRepo]
     = ''bytebase.sql/{{VERSION}}__{{DESCRIPTION}}.sql'' \<and>
   templateAndOmit yamlFile tenantRepo = (''bytebase.yml/{{VERSION}}__{{DESCRIPTION}}.sql'', True) \<and>
   fst (templateAndOmit yamlFile tenantRepo) \<noteq> ''bytebase.sql/{{VERSION}}__{{DESCRIPTION}}.yml''"
  by code_simp

section \<open>The type and the name of the merged issue\<close>

text \<open>
  The issue type is "schema update" exactly when some detail is of kind migrate or
  baseline; the name says "Alter schema" exactly when some detail is of kind migrate.
  The two agree on every detail list without a baseline detail.
\<close>

lemma issueTypeLoop_iff:
  "issueTypeLoop migrationDetails issueType =
     (if list_ex isSchemaKind migrationDetails then IssueDatabaseSchemaUpdate else issueType)"
  by (induction migrationDetails arbitrary: issueType) (auto simp: isSchemaKind_def)

lemma migrateTypeLoop_iff:
  "migrateTypeLoop migrationDetails =
     (if list_ex (\<lambda>detail. md_MigrationType detail = Migrate) migrationDetails
      then ''Alter schema'' else ''Change data'')"
  by (induction migrationDetails) auto

lemma name_agrees_with_type_without_baseline:
  "\<not> list_ex (\<lambda>detail. md_MigrationType detail = Baseline) migrationDetails \<Longrightarrow>
   (migrateTypeLoop migrationDetails = ''Alter schema'') =
   (issueTypeLoop migrationDetails IssueDatabaseDataUpdate = IssueDatabaseSchemaUpdate)"
  by (induction migrationDetails) (auto simp: issueTypeLoop_iff isSchemaKind_def)

text \<open>
  The scenario of the specification: the project \<open>shop\<close> receives one schema file and one
  migration file of kind migrate for the database \<open>shop\<close>. A project that is not SDL gets
  exactly one issue, \<open>[shop] Alter schema\<close>, of type schema update; an SDL project gets two
  issues, one per file.
\<close>

lemma shop_scenario:
  "map (\<lambda>issue. (ic_Name issue, ic_Type issue))
     (issuesCreated (processFilesInProject shopWorld 1 (shopRepo ProjectSchemaChangeTypeDDL)
        [shopFile ProjectSchemaChangeTypeDDL ''db/dev/.shop__LATEST.sql'' [] Migrate schemaFileType,
         shopFile ProjectSchemaChangeTypeDDL ''db/dev/shop__v2__migrate.sql'' ''v2'' Migrate
           migrationFileType]))
     = [(''[shop] Alter schema'', IssueDatabaseSchemaUpdate)] \<and>
   map ic_Name
     (issuesCreated (processFilesInProject shopWorld 1 (shopRepo ProjectSchemaChangeTypeSDL)
        [shopFile ProjectSchemaChangeTypeSDL ''db/dev/.shop__LATEST.sql'' [] Migrate schemaFileType,
         shopFile ProjectSchemaChangeTypeSDL ''db/dev/shop__v2__migrate.sql'' ''v2'' Migrate
           migrationFileType]))
     = [''[shop] Alter schema'', ''[shop] Alter schema'']"
  by code_simp

text \<open>
  C1, at the input where the code departs from it. A project that is not SDL receives one
  added migration file of kind baseline for the database \<open>shop\<close>. The one issue created is
  of type schema update, as the claim says, and is named \<open>[shop] Change data\<close>, where the
  claim has \<open>[shop] Alter schema\<close> for every issue of type schema update.
\<close>

theorem baseline_issue_is_named_change_data:
  "map (\<lambda>issue. (ic_Name issue, ic_Type issue, map md_MigrationType (ic_DetailList issue)))
     (issuesCreated (processFilesInProject shopWorld 1 (shopRepo ProjectSchemaChangeTypeDDL)
        [shopFile ProjectSchemaChangeTypeDDL ''db/dev/shop__v1__baseline.sql'' ''v1'' Baseline
           migrationFileType]))
     = [(''[shop] Change data'', IssueDatabaseSchemaUpdate, [Baseline])]"
  by code_simp

section \<open>The branch filter\<close>































section \<open>The order of the files of one database\<close>










section \<open>The GitHub signature check\<close>

text \<open>
  Validation succeeds exactly when the header, with a leading \<open>sha256=\<close> removed, is the
  hexadecimal digest of the body under the key. Whether another body validates against the
  same header is then a question about the digests alone.
\<close>

lemma differs_iff:
  "length x = length y \<Longrightarrow> differs x y v = (v \<or> x \<noteq> y)"
  by (induction x y v rule: differs.induct) auto

lemma ConstantTimeCompare_iff: "(ConstantTimeCompare x y = 1) = (x = y)"
  by (auto simp: ConstantTimeCompare_def differs_iff)

lemma validateGitHubWebhookSignature256_iff:
  "validateGitHubWebhookSignature256 hmacSHA256 signature key body
     = Inr (TrimPrefix signature ''sha256='' = EncodeToString (hmacSHA256 key body))"
  by (simp add: validateGitHubWebhookSignature256_def ConstantTimeCompare_iff)

lemma validation_of_changed_body:
  "validateGitHubWebhookSignature256 hmacSHA256 signature key body = Inr True \<Longrightarrow>
   validateGitHubWebhookSignature256 hmacSHA256 signature key body'
     = Inr (EncodeToString (hmacSHA256 key body') = EncodeToString (hmacSHA256 key body))"
  by (auto simp: validateGitHubWebhookSignature256_iff)

end
